theory Spec2Isabelle
  imports Complex_Main "HOL-Library.Multiset"
begin

section \<open>Python run-time errors\<close>

datatype py_error =
    AttributeError | NotImplementedError | NameError | ValueError | TypeError | AssertionError

section \<open>The random generators\<close>

text \<open>
  A generator state is the sequence of raw values the generator will still deliver.
  \<open>randbelow n\<close> consumes the next raw value and reduces it to an index below \<open>n\<close>,
  as \<^verbatim>\<open>random._randbelow\<close> and numpy's bounded draw do.
\<close>

type_synonym rng = "nat \<Rightarrow> nat"

definition randbelow :: "nat \<Rightarrow> rng \<Rightarrow> nat \<times> rng" where
  "randbelow n g = (g 0 mod n, \<lambda>k. g (Suc k))"

text \<open>
  \<^verbatim>\<open>random.shuffle(x)\<close> (and numpy's \<^verbatim>\<open>permutation\<close>) is the Fisher-Yates loop
  \<^verbatim>\<open>for i in reversed(range(1, len(x))): j = randbelow(i + 1); x[i], x[j] = x[j], x[i]\<close>.
  \<open>shuffle_from k\<close> runs the iterations \<open>i = k, k - 1, ..., 1\<close>.
\<close>

fun shuffle_from :: "nat \<Rightarrow> 'a list \<Rightarrow> rng \<Rightarrow> 'a list \<times> rng" where
  "shuffle_from 0 x g = (x, g)"
| "shuffle_from (Suc k) x g =
     (case randbelow (Suc k + 1) g of
        (j, g') \<Rightarrow> shuffle_from k (x[Suc k := x ! j, j := x ! Suc k]) g')"

definition shuffle :: "'a list \<Rightarrow> rng \<Rightarrow> 'a list \<times> rng" where
  "shuffle x g = shuffle_from (length x - 1) x g"

section \<open>collate_nsp_pairs\<close>

text \<open>
  Lines 48 to 53 of \<^verbatim>\<open>collate_nsp_pairs\<close>: the left list taken twice, and the right list
  followed by a shuffled copy of itself. The state of the \<^verbatim>\<open>random\<close> module is threaded.
\<close>

definition nsp_lists :: "('l \<times> 'r) list \<Rightarrow> rng \<Rightarrow> ('l list \<times> 'r list) \<times> rng" where
  "nsp_lists batch g =
     (let lefts = map fst batch @ map fst batch;
          rights = map snd batch
      in case shuffle rights g of
           (rights', g') \<Rightarrow> ((lefts, rights @ rights'), g'))"

text \<open>
  \<^verbatim>\<open>torch.cat([torch.ones(n), torch.zeros(n)]).float()\<close>: the labels are int64 ones and
  zeros, converted to floating point (both values are exact there).
\<close>

definition nsp_targets :: "nat \<Rightarrow> real list" where
  "nsp_targets n = map real_of_int (replicate n 1 @ replicate n 0)"

text \<open>
  \<^verbatim>\<open>padded_collate_wo_target\<close> is imported from another module; it is the parameter
  \<open>pcw\<close>, applied to each of the two lists.
\<close>

definition collate_nsp_pairs ::
  "('l list \<Rightarrow> 'fl) \<Rightarrow> ('r list \<Rightarrow> 'fr) \<Rightarrow> ('l \<times> 'r) list \<Rightarrow> rng \<Rightarrow> (('fl \<times> 'fr) \<times> real list) \<times> rng" where
  "collate_nsp_pairs pcw_l pcw_r batch g =
     (case nsp_lists batch g of
        ((lefts, rights), g') \<Rightarrow>
          (((pcw_l lefts, pcw_r rights), nsp_targets (length batch)), g'))"

section \<open>Configuration, collaborators and module state\<close>

text \<open>
  A row read from the parquet files: the value of its \<^verbatim>\<open>col_id\<close> field and the length
  of its event sequence.
\<close>

record 'id row =
  row_id :: 'id
  row_seq_len :: nat

datatype aug = DropoutTrx rat | sequence_pair_augmentation

datatype 'id stage =
    IdFilter string "'id list option"
  | SeqLenFilter nat
  | FeatureTypeCast string
  | FeatureFilter bool
  | CategorySizeClip "(string \<times> nat) list"
  | IterableShuffle nat
  | IterableSplittingDataset string
  | IterableAugmentations "aug list"

datatype 'id dataset =
    ParquetDataset "string list" "'id stage list" bool
  | PartitionedDataset string "string list" "string list" string "'id stage list" bool
  | MapSplittingDataset "'id dataset" string "aug list"

text \<open>
  The keys the code reads with \<^verbatim>\<open>conf[...]\<close> are fields. \<open>dataset_files\<close> and
  \<open>dataset_parts\<close> are optional, since \<^verbatim>\<open>prepare_data\<close> tests their presence with
  \<^verbatim>\<open>in\<close>; a present \<open>dataset_files\<close> holds its \<^verbatim>\<open>data_path\<close>.
\<close>

record setup_config =
  col_id :: string
  dataset_files :: "string option"
  dataset_parts :: "string option"
  split_by :: string
  valid_size :: rat
  valid_split_seed :: int

record train_config =
  min_seq_len :: nat
  buffer_size :: nat
  split_strategy :: string
  trx_dropout :: rat
  num_workers :: nat
  batch_size :: nat

record valid_config =
  valid_split_strategy :: string
  valid_num_workers :: nat
  valid_batch_size :: nat

record partitioned_data_files =
  data_path :: string
  dt_parts :: "string list"
  hash_parts :: "string list"

text \<open>
  The collaborators imported from other modules and libraries, taken as parameters:
  the file listings, the rows a \<^verbatim>\<open>ParquetDataset\<close> over given files yields before
  post-processing, \<^verbatim>\<open>ListSplitter\<close> (files, valid_size, seed to train and valid),
  numpy's \<^verbatim>\<open>RandomState(seed)\<close> and the function \<^verbatim>\<open>shuffle_client_list_reproducible\<close>
  (seed and rows to rows).
\<close>

record 'id externals =
  ParquetFiles :: "string \<Rightarrow> string list"
  parquet_rows :: "string list \<Rightarrow> 'id row list"
  PartitionedDataFiles :: "string \<Rightarrow> partitioned_data_files"
  ListSplitter :: "string list \<Rightarrow> rat \<Rightarrow> int \<Rightarrow> string list \<times> string list"
  RandomState :: "int \<Rightarrow> rng"
  shuffle_client_list_reproducible :: "int \<Rightarrow> 'id row list \<Rightarrow> 'id row list"

record 'id module =
  mod_type :: string
  setup_conf :: setup_config
  train_conf :: train_config
  valid_conf :: valid_config
  category_max_size :: "(string \<times> nat) list"
  train_dataset :: "'id dataset option"
  valid_dataset :: "'id dataset option"
  train_ids :: "'id list option"
  valid_ids :: "'id list option"

definition NspDataModuleTrain_init ::
  "string \<Rightarrow> setup_config \<Rightarrow> train_config \<Rightarrow> valid_config \<Rightarrow> (string \<times> nat) list \<Rightarrow> py_error + 'id module" where
  "NspDataModuleTrain_init ty sc tc vc cms =
     (if ty = ''map'' \<or> ty = ''iterable''
      then Inr \<lparr>mod_type = ty, setup_conf = sc, train_conf = tc, valid_conf = vc, category_max_size = cms,
                train_dataset = None, valid_dataset = None, train_ids = None, valid_ids = None\<rparr>
      else Inl AssertionError)"

section \<open>Names bound in the modules\<close>

text \<open>
  The global names of \<^verbatim>\<open>nsp_data_module.py\<close>: what its import statements bind
  (lines 18 to 42) and what it defines. A name that is neither local, nor here, nor a
  builtin raises \<^verbatim>\<open>NameError\<close> when it is evaluated.
\<close>

definition nsp_module_globals :: "string list" where
  "nsp_module_globals =
     [''logging'', ''random'', ''np'', ''pl'', ''torch'', ''ConfigFactory'', ''DataLoader'', ''tqdm'',
      ''sequence_pair_augmentation'', ''IterableAugmentations'', ''IterableChain'',
      ''augmentation_chain'', ''padded_collate_wo_target'', ''DropoutTrx'', ''CategorySizeClip'',
      ''FeatureFilter'', ''FeatureTypeCast'', ''IdFilter'', ''IterableShuffle'', ''SeqLenFilter'',
      ''ListSplitter'', ''ParquetDataset'', ''ParquetFiles'', ''PartitionedDataset'',
      ''PartitionedDataFiles'', ''split_strategy'', ''nested_list_to_flat_with_collate'',
      ''IterableSplittingDataset'', ''MapSplittingDataset'', ''logger'', ''collate_nsp_pairs'',
      ''NspDataModuleTrain'']"

text \<open>The global names of \<^verbatim>\<open>coles_module.py\<close> (lines 1 to 7).\<close>

definition coles_module_globals :: "string list" where
  "coles_module_globals =
     [''instantiate'', ''ABSModule'', ''ContrastiveLoss'', ''BatchRecallTopPL'', ''CoLESModule'']"

section \<open>The row-level split\<close>

text \<open>
  Modelled from the spec: \<^verbatim>\<open>SeqLenFilter\<close> is defined in another module; it drops the
  records whose sequence length is below the configured minimum.
\<close>

definition apply_SeqLenFilter :: "nat \<Rightarrow> 'id row list \<Rightarrow> 'id row list" where
  "apply_SeqLenFilter m rows = filter (\<lambda>r. m \<le> row_seq_len r) rows"

text \<open>
  Python floats are IEEE binary64 values. A float is held as the rational it denotes
  (no infinities or NaN, exponents in the normal range). \<open>py_float\<close> is the nearest
  binary64 value of a rational, ties to the even significand: it is what reading a
  decimal literal and what converting an \<^verbatim>\<open>int\<close> give. \<open>float_mul\<close> is the
  correctly rounded product.
\<close>

definition pow2 :: "int \<Rightarrow> rat" where
  "pow2 e = (if 0 \<le> e then 2 ^ nat e else 1 / 2 ^ nat (- e))"

text \<open>The number of binary digits of a positive integer, as \<^verbatim>\<open>int.bit_length\<close>.\<close>

function bit_length :: "int \<Rightarrow> nat" where
  "bit_length n = (if n \<le> 0 then 0 else Suc (bit_length (n div 2)))"
  by pat_completeness auto
termination
  by (relation "measure nat") auto

declare bit_length.simps [simp del]

text \<open>For \<open>x > 0\<close>, the exponent \<open>e\<close> with \<open>2 ^ e \<le> x < 2 ^ (e + 1)\<close>.\<close>

definition float_exponent :: "rat \<Rightarrow> int" where
  "float_exponent x =
     (case quotient_of x of
        (p, q) \<Rightarrow>
          (let d = int (bit_length p) - int (bit_length q)
           in if pow2 d \<le> x then d else d - 1))"

definition round_half_even :: "rat \<Rightarrow> int" where
  "round_half_even x =
     (let f = \<lfloor>x\<rfloor>; r = x - of_int f
      in if r < 1 / 2 then f
         else if 1 / 2 < r then f + 1
         else if even f then f else f + 1)"

definition py_float :: "rat \<Rightarrow> rat" where
  "py_float x =
     (if x = 0 then 0
      else let u = pow2 (float_exponent \<bar>x\<bar> - 52)
           in sgn x * of_int (round_half_even (\<bar>x\<bar> / u)) * u)"

definition float_mul :: "rat \<Rightarrow> rat \<Rightarrow> rat" where
  "float_mul x y = py_float (x * y)"

text \<open>Python's \<^verbatim>\<open>int(x)\<close> on a float truncates towards zero.\<close>

definition py_int :: "rat \<Rightarrow> int" where
  "py_int x = (if 0 \<le> x then \<lfloor>x\<rfloor> else \<lceil>x\<rceil>)"

text \<open>
  \<^verbatim>\<open>RandomState.choice(np.arange(n), size=size, replace=False)\<close>: numpy refuses a sample
  larger than the population and a negative size, and otherwise returns the first
  \<open>sz\<close> entries of a shuffled \<^verbatim>\<open>arange(n)\<close>.
\<close>

definition choice :: "rng \<Rightarrow> nat \<Rightarrow> int \<Rightarrow> py_error + nat list" where
  "choice g n sz =
     (if int n < sz then Inl ValueError
      else if sz < 0 then Inl ValueError
      else Inr (take (nat sz) (fst (shuffle [0..<n] g))))"

text \<open>
  Lines 188 to 198 of \<^verbatim>\<open>split_by_rows\<close>: the index sample drawn from
  \<^verbatim>\<open>RandomState(42)\<close> and the two comprehensions over \<^verbatim>\<open>enumerate(list_ids)\<close>.
  The product \<^verbatim>\<open>len(list_ids) * valid_size\<close> is a float product: the length is
  converted to a float, multiplied and rounded, and only then truncated by \<^verbatim>\<open>int\<close>.
\<close>

definition split_ids :: "(int \<Rightarrow> rng) \<Rightarrow> rat \<Rightarrow> 'id list \<Rightarrow> py_error + ('id list \<times> 'id list)" where
  "split_ids rs vs list_ids =
     (case choice (rs 42) (length list_ids)
             (py_int (float_mul (py_float (of_nat (length list_ids))) (py_float vs))) of
        Inl e \<Rightarrow> Inl e
      | Inr ix \<Rightarrow>
          Inr (map snd (filter (\<lambda>p. fst p \<notin> set ix) (enumerate 0 list_ids)),
               map snd (filter (\<lambda>p. fst p \<in> set ix) (enumerate 0 list_ids))))"

text \<open>
  \<^verbatim>\<open>split_by_rows\<close>, lines 178 to 198, run with the global names \<open>globals\<close>. Line 180
  calls \<^verbatim>\<open>shuffle_client_list_reproducible\<close>; Python evaluates the callee first, so a
  name that is not bound raises before anything else on that line. The seed of that
  call and the seed of \<^verbatim>\<open>RandomState\<close> are the literal 42.
\<close>

definition split_by_rows_with ::
  "string list \<Rightarrow> 'id externals \<Rightarrow> 'id module \<Rightarrow> string list \<Rightarrow> py_error + 'id module" where
  "split_by_rows_with globals ext self data_files =
     (let list_ids = apply_SeqLenFilter (min_seq_len (train_conf self)) (parquet_rows ext data_files)
      in if ''shuffle_client_list_reproducible'' \<notin> set globals then Inl NameError
         else
           let list_ids = shuffle_client_list_reproducible ext 42 list_ids;
               list_ids = map row_id list_ids
           in case split_ids (RandomState ext) (valid_size (setup_conf self)) list_ids of
                Inl e \<Rightarrow> Inl e
              | Inr (train_data, valid_data) \<Rightarrow>
                  Inr (self\<lparr>train_ids := Some train_data, valid_ids := Some valid_data\<rparr>))"

text \<open>The method as it runs in \<^verbatim>\<open>nsp_data_module.py\<close>.\<close>

definition split_by_rows :: "'id externals \<Rightarrow> 'id module \<Rightarrow> string list \<Rightarrow> py_error + 'id module" where
  "split_by_rows ext self data_files = split_by_rows_with nsp_module_globals ext self data_files"

section \<open>Building the datasets\<close>

definition build_augmentations :: "'id module \<Rightarrow> string \<Rightarrow> aug list" where
  "build_augmentations self part =
     (if part = ''train'' then [DropoutTrx (trx_dropout (train_conf self))] else [])
     @ [sequence_pair_augmentation]"

definition build_iterable_processing :: "'id module \<Rightarrow> string \<Rightarrow> 'id stage list" where
  "build_iterable_processing self part =
     (if dataset_files (setup_conf self) \<noteq> None \<and> split_by (setup_conf self) = ''rows''
      then (if part = ''train'' then [IdFilter (col_id (setup_conf self)) (train_ids self)]
            else [IdFilter (col_id (setup_conf self)) (valid_ids self)])
      else [])
     @ (if part = ''train'' then [SeqLenFilter (min_seq_len (train_conf self))] else [])
     @ [FeatureTypeCast (col_id (setup_conf self)), FeatureFilter True,
        CategorySizeClip (category_max_size self)]
     @ (if mod_type self = ''iterable''
        then (if part = ''train'' then [IterableShuffle (buffer_size (train_conf self))] else [])
             @ [IterableSplittingDataset
                  (if part = ''train'' then split_strategy (train_conf self)
                   else valid_split_strategy (valid_conf self))]
             @ [IterableAugmentations (build_augmentations self part)]
        else [])"

definition setup_iterable_files :: "'id externals \<Rightarrow> 'id module \<Rightarrow> py_error + 'id module" where
  "setup_iterable_files ext self =
     (if split_by (setup_conf self) = ''files'' then
        (let data_files = ParquetFiles ext (the (dataset_files (setup_conf self)));
             splitter = ListSplitter ext data_files (valid_size (setup_conf self))
                          (valid_split_seed (setup_conf self))
         in Inr (self\<lparr>
              train_dataset := Some (ParquetDataset (fst splitter)
                (build_iterable_processing self ''train'') (mod_type self = ''iterable'')),
              valid_dataset := Some (ParquetDataset (snd splitter)
                (build_iterable_processing self ''valid'') False)\<rparr>))
      else if split_by (setup_conf self) = ''rows'' then
        (let data_files = ParquetFiles ext (the (dataset_files (setup_conf self)))
         in case split_by_rows ext self data_files of
              Inl e \<Rightarrow> Inl e
            | Inr self' \<Rightarrow>
                Inr (self'\<lparr>
                  train_dataset := Some (ParquetDataset data_files
                    (build_iterable_processing self' ''train'') (mod_type self' = ''iterable'')),
                  valid_dataset := Some (ParquetDataset data_files
                    (build_iterable_processing self' ''valid'') False)\<rparr>))
      else Inl AttributeError)"

definition setup_iterable_parts :: "'id externals \<Rightarrow> 'id module \<Rightarrow> py_error + 'id module" where
  "setup_iterable_parts ext self =
     (let data_files = PartitionedDataFiles ext (the (dataset_parts (setup_conf self)))
      in if split_by (setup_conf self) = ''hash_id'' then
           (let splitter = ListSplitter ext (hash_parts data_files) (valid_size (setup_conf self))
                             (valid_split_seed (setup_conf self))
            in Inr (self\<lparr>
                 train_dataset := Some (PartitionedDataset (data_path data_files)
                   (dt_parts data_files) (fst splitter) (col_id (setup_conf self))
                   (build_iterable_processing self ''train'') (mod_type self = ''iterable'')),
                 valid_dataset := Some (PartitionedDataset (data_path data_files)
                   (dt_parts data_files) (snd splitter) (col_id (setup_conf self))
                   (build_iterable_processing self ''valid'') False)\<rparr>))
         else if split_by (setup_conf self) = ''rows'' then Inl NotImplementedError
         else Inl AttributeError)"

text \<open>
  \<^verbatim>\<open>setup_map\<close>: each dataset is read into a list and wrapped; \<^verbatim>\<open>iter(None)\<close> is a
  \<^verbatim>\<open>TypeError\<close>.
\<close>

definition setup_map :: "'id module \<Rightarrow> py_error + 'id module" where
  "setup_map self =
     (case train_dataset self of
        None \<Rightarrow> Inl TypeError
      | Some t \<Rightarrow>
          (case valid_dataset self of
             None \<Rightarrow> Inl TypeError
           | Some v \<Rightarrow>
               Inr (self\<lparr>
                 train_dataset := Some (MapSplittingDataset t (split_strategy (train_conf self))
                   (build_augmentations self ''train'')),
                 valid_dataset := Some (MapSplittingDataset v (valid_split_strategy (valid_conf self))
                   (build_augmentations self ''valid''))\<rparr>)))"

definition prepare_data :: "'id externals \<Rightarrow> 'id module \<Rightarrow> py_error + 'id module" where
  "prepare_data ext self =
     (case (if dataset_files (setup_conf self) \<noteq> None then setup_iterable_files ext self
            else if dataset_parts (setup_conf self) \<noteq> None then setup_iterable_parts ext self
            else Inl AttributeError) of
        Inl e \<Rightarrow> Inl e
      | Inr self' \<Rightarrow> if mod_type self' = ''map'' then setup_map self' else Inr self')"

section \<open>The data loaders\<close>

datatype collate_fn = collate_nsp_pairs_fn | nested_list_to_flat_with_collate collate_fn

record 'id dataloader =
  dl_dataset :: "'id dataset option"
  dl_collate_fn :: collate_fn
  dl_shuffle :: bool
  dl_num_workers :: nat
  dl_batch_size :: nat

text \<open>
  \<^verbatim>\<open>torch.utils.data.DataLoader\<close>: the \<^verbatim>\<open>shuffle\<close> argument is optional, and a loader
  built without it does not shuffle.
\<close>

definition DataLoader ::
  "'id dataset option \<Rightarrow> collate_fn \<Rightarrow> bool option \<Rightarrow> nat \<Rightarrow> nat \<Rightarrow> 'id dataloader" where
  "DataLoader ds cf sh nw bs =
     \<lparr>dl_dataset = ds, dl_collate_fn = cf,
      dl_shuffle = (case sh of None \<Rightarrow> False | Some b \<Rightarrow> b),
      dl_num_workers = nw, dl_batch_size = bs\<rparr>"

definition train_dataloader :: "'id module \<Rightarrow> 'id dataloader" where
  "train_dataloader self =
     (let collate = (if mod_type self \<noteq> ''iterable''
                     then nested_list_to_flat_with_collate collate_nsp_pairs_fn
                     else collate_nsp_pairs_fn)
      in DataLoader (train_dataset self) collate
           (Some (if mod_type self = ''iterable'' then False else True))
           (num_workers (train_conf self)) (batch_size (train_conf self)))"

definition val_dataloader :: "'id module \<Rightarrow> 'id dataloader" where
  "val_dataloader self =
     (let collate = (if mod_type self \<noteq> ''iterable''
                     then nested_list_to_flat_with_collate collate_nsp_pairs_fn
                     else collate_nsp_pairs_fn)
      in DataLoader (valid_dataset self) collate None
           (valid_num_workers (valid_conf self)) (valid_batch_size (valid_conf self)))"

section \<open>CoLESModule\<close>

datatype sampling_strategy = HardNegativePairSelector nat

datatype 'obj loss = ContrastiveLoss rat sampling_strategy | given_loss 'obj

datatype 'obj metric = BatchRecallTopPL nat string | given_metric 'obj

record ('obj, 'abs) coles =
  abs_module :: 'abs
  head :: "'obj option"

text \<open>
  \<^verbatim>\<open>CoLESModule.__init__\<close>. The constructor of the base class \<^verbatim>\<open>ABSModule\<close> is the
  parameter \<open>ABSModule_init\<close>. The name \<^verbatim>\<open>HardNegativePairSelector\<close> on line 16 is looked
  up among the module's globals when the default loss is built.
\<close>

definition CoLESModule_init ::
  "('obj metric \<Rightarrow> 'obj option \<Rightarrow> 'obj loss \<Rightarrow> 'obj option \<Rightarrow> 'obj option \<Rightarrow> py_error + 'abs)
     \<Rightarrow> 'obj option \<Rightarrow> 'obj option \<Rightarrow> 'obj option \<Rightarrow> 'obj option \<Rightarrow> 'obj option \<Rightarrow> 'obj option
     \<Rightarrow> py_error + ('obj, 'abs) coles" where
  "CoLESModule_init ABSModule_init validation_metric seq_encoder hd_arg loss_arg
       optimizer_partial lr_scheduler_partial =
     (case (case loss_arg of
              None \<Rightarrow>
                if ''HardNegativePairSelector'' \<in> set coles_module_globals
                then Inr (ContrastiveLoss (1 / 2) (HardNegativePairSelector 5))
                else Inl NameError
            | Some l \<Rightarrow> Inr (given_loss l)) of
        Inl e \<Rightarrow> Inl e
      | Inr ls \<Rightarrow>
          (let vm = (case validation_metric of
                       None \<Rightarrow> BatchRecallTopPL 4 ''cosine''
                     | Some m \<Rightarrow> given_metric m)
           in case ABSModule_init vm seq_encoder ls optimizer_partial lr_scheduler_partial of
                Inl e \<Rightarrow> Inl e
              | Inr a \<Rightarrow> Inr \<lparr>abs_module = a, head = hd_arg\<rparr>))"

section \<open>Concrete inputs\<close>

text \<open>
  Collaborators for the examples: one file per path, five rows with the ids 1 to 5,
  a generator whose raw values start at the seed, and a shuffle helper that keeps the
  order.
\<close>

definition example_externals :: "int externals" where
  "example_externals =
     \<lparr>ParquetFiles = (\<lambda>p. [p]),
      parquet_rows = (\<lambda>fs. [\<lparr>row_id = 1, row_seq_len = 9\<rparr>, \<lparr>row_id = 2, row_seq_len = 9\<rparr>,
                             \<lparr>row_id = 3, row_seq_len = 9\<rparr>, \<lparr>row_id = 4, row_seq_len = 9\<rparr>,
                             \<lparr>row_id = 5, row_seq_len = 9\<rparr>]),
      PartitionedDataFiles = (\<lambda>p. \<lparr>data_path = p, dt_parts = [], hash_parts = []\<rparr>),
      ListSplitter = (\<lambda>fs vs seed. (fs, [])),
      RandomState = (\<lambda>seed k. nat \<bar>seed\<bar> + k),
      shuffle_client_list_reproducible = (\<lambda>seed rows. rows)\<rparr>"

definition example_module ::
  "string \<Rightarrow> string option \<Rightarrow> string option \<Rightarrow> string \<Rightarrow> int \<Rightarrow> int module" where
  "example_module ty files parts sb seed =
     \<lparr>mod_type = ty,
      setup_conf = \<lparr>col_id = ''client_id'', dataset_files = files, dataset_parts = parts,
                    split_by = sb, valid_size = 3 / 4, valid_split_seed = seed\<rparr>,
      train_conf = \<lparr>min_seq_len = 5, buffer_size = 8, split_strategy = ''SampleSlices'',
                    trx_dropout = 1 / 100, num_workers = 0, batch_size = 2\<rparr>,
      valid_conf = \<lparr>valid_split_strategy = ''SampleSlices'', valid_num_workers = 0,
                    valid_batch_size = 2\<rparr>,
      category_max_size = [],
      train_dataset = None, valid_dataset = None, train_ids = None, valid_ids = None\<rparr>"

section \<open>Properties of the shuffle\<close>

lemma randbelow_less: "0 < n \<Longrightarrow> fst (randbelow n g) < n"
  by (simp add: randbelow_def)

lemma shuffle_from_mset:
  "k < length x \<Longrightarrow> mset (fst (shuffle_from k x g)) = mset x"
proof (induction k arbitrary: x g)
  case 0
  then show ?case by simp
next
  case (Suc k)
  obtain j g' where r: "randbelow (Suc k + 1) g = (j, g')"
    by (cases "randbelow (Suc k + 1) g")
  have "j < Suc k + 1"
    using randbelow_less [of "Suc k + 1" g] r by simp
  with Suc.prems have j: "j < length x" by simp
  let ?y = "x[Suc k := x ! j, j := x ! Suc k]"
  have "mset ?y = mset x"
    using Suc.prems j by (simp add: mset_swap)
  moreover have "mset (fst (shuffle_from k ?y g')) = mset ?y"
    using Suc.prems by (intro Suc.IH) simp
  ultimately show ?case
    using r by simp
qed

lemma shuffle_mset: "mset (fst (shuffle x g)) = mset x"
proof (cases x)
  case Nil
  then show ?thesis by (simp add: shuffle_def)
next
  case (Cons a as)
  then show ?thesis by (simp add: shuffle_def shuffle_from_mset)
qed

lemma shuffle_length: "length (fst (shuffle x g)) = length x"
  using shuffle_mset [of x g] by (metis size_mset)

section \<open>The NSP batch\<close>

lemma nsp_lists_eq:
  "nsp_lists batch g =
     ((map fst batch @ map fst batch, map snd batch @ fst (shuffle (map snd batch) g)),
      snd (shuffle (map snd batch) g))"
  by (simp add: nsp_lists_def Let_def split: prod.split)

lemma collate_nsp_pairs_eq:
  "collate_nsp_pairs pcw_l pcw_r batch g =
     (((pcw_l (fst (fst (nsp_lists batch g))), pcw_r (snd (fst (nsp_lists batch g)))),
       nsp_targets (length batch)), snd (nsp_lists batch g))"
  by (simp add: collate_nsp_pairs_def split: prod.split)

text \<open>
  C1. For a batch of \<open>n\<close> pairs, the label tensor returned by \<^verbatim>\<open>collate_nsp_pairs\<close> is
  \<open>n\<close> ones followed by \<open>n\<close> zeros, of length \<open>2n\<close>, and the two lists handed to
  \<^verbatim>\<open>padded_collate_wo_target\<close> hold \<open>2n\<close> examples each.
\<close>

theorem collate_nsp_pairs_labels:
  "snd (fst (collate_nsp_pairs pcw_l pcw_r batch g))
     = replicate (length batch) 1 @ replicate (length batch) 0
   \<and> length (snd (fst (collate_nsp_pairs pcw_l pcw_r batch g))) = 2 * length batch
   \<and> fst (fst (collate_nsp_pairs pcw_l pcw_r batch g))
     = (pcw_l (fst (fst (nsp_lists batch g))), pcw_r (snd (fst (nsp_lists batch g))))
   \<and> length (fst (fst (nsp_lists batch g))) = 2 * length batch
   \<and> length (snd (fst (nsp_lists batch g))) = 2 * length batch"
  by (simp add: collate_nsp_pairs_eq nsp_targets_def nsp_lists_eq shuffle_length)

text \<open>The scenario of the specification: four pairs give the labels 1, 1, 1, 1, 0, 0, 0, 0.\<close>

lemma collate_nsp_pairs_four:
  "snd (fst (collate_nsp_pairs pcw_l pcw_r [(a1, b1), (a2, b2), (a3, b3), (a4, b4)] g))
     = [1, 1, 1, 1, 0, 0, 0, 0]"
  by (simp add: collate_nsp_pairs_eq nsp_targets_def)

text \<open>
  C2. In the \<open>2n\<close> examples built by \<^verbatim>\<open>collate_nsp_pairs\<close>, the left list of the second
  half equals the left list of the first half element for element, the first half
  holds the original pairs, and the right list of the second half is a permutation
  of the right list of the first half.
\<close>

theorem collate_nsp_pairs_halves:
  "drop (length batch) (fst (fst (nsp_lists batch g)))
     = take (length batch) (fst (fst (nsp_lists batch g)))
   \<and> take (length batch) (fst (fst (nsp_lists batch g))) = map fst batch
   \<and> take (length batch) (snd (fst (nsp_lists batch g))) = map snd batch
   \<and> mset (drop (length batch) (snd (fst (nsp_lists batch g))))
     = mset (take (length batch) (snd (fst (nsp_lists batch g))))"
  by (simp add: nsp_lists_eq shuffle_mset)

section \<open>The row-level split: the sample size and the partition step\<close>

text \<open>
  The float product is rounded before \<^verbatim>\<open>int\<close> truncates it: \<^verbatim>\<open>int(10 * 0.7)\<close> is 7,
  \<^verbatim>\<open>int(100 * 0.29)\<close> is 28 and \<^verbatim>\<open>int(5 * 0.75)\<close> is 3.
\<close>

lemma sample_size_examples:
  "py_int (float_mul (py_float (of_nat 10)) (py_float (7 / 10))) = 7"
  "py_int (float_mul (py_float (of_nat 100)) (py_float (29 / 100))) = 28"
  "py_int (float_mul (py_float (of_nat 5)) (py_float (3 / 4))) = 3"
  by code_simp+

lemma split_ids_example:
  "split_ids (RandomState example_externals) (3 / 4) [1::int, 2, 3, 4, 5] = Inr ([3, 4], [1, 2, 5])"
  by code_simp

lemma mset_map_filter_split:
  "mset (map f (filter (\<lambda>p. \<not> P p) ys)) + mset (map f (filter P ys)) = mset (map f ys)"
  by (induction ys) simp_all

text \<open>Whenever lines 188 to 198 return, the two lists together hold every entry once.\<close>

lemma split_ids_mset:
  assumes "split_ids rs vs xs = Inr (tr, va)"
  shows "mset tr + mset va = mset xs"
proof -
  from assms obtain ix where
    tr: "tr = map snd (filter (\<lambda>p. fst p \<notin> set ix) (enumerate 0 xs))" and
    va: "va = map snd (filter (\<lambda>p. fst p \<in> set ix) (enumerate 0 xs))"
    by (auto simp: split_ids_def split: sum.splits)
  have "mset tr + mset va = mset (map snd (enumerate 0 xs))"
    unfolding tr va by (rule mset_map_filter_split)
  then show ?thesis by simp
qed

section \<open>The row-level split: the method as a whole\<close>

lemma shuffle_name_unbound: "''shuffle_client_list_reproducible'' \<notin> set nsp_module_globals"
  by (simp add: nsp_module_globals_def)

text \<open>
  \<^verbatim>\<open>shuffle_client_list_reproducible\<close> is bound by no import of the module, so the
  method raises on line 180 for every input.
\<close>

lemma split_by_rows_NameError: "split_by_rows ext self data_files = Inl NameError"
  by (simp add: split_by_rows_def split_by_rows_with_def shuffle_name_unbound)

text \<open>
  With the name bound, the outcome no longer mentions the process state at all, and
  it is the same for every value of \<^verbatim>\<open>valid_split_seed\<close>.
\<close>

lemma split_by_rows_with_seed:
  "map_sum id (\<lambda>m. (train_ids m, valid_ids m))
     (split_by_rows_with gl ext (self\<lparr>setup_conf := (setup_conf self)\<lparr>valid_split_seed := s\<rparr>\<rparr>) fs)
   = map_sum id (\<lambda>m. (train_ids m, valid_ids m)) (split_by_rows_with gl ext self fs)"
  by (simp add: split_by_rows_with_def Let_def split: sum.split prod.split)

text \<open>
  C3. The row-level split does not assign the ids to train and valid: for the files
  holding the ids 1 to 5, \<^verbatim>\<open>split_by_rows\<close> ends in \<^verbatim>\<open>NameError\<close> on line 180, and
  \<^verbatim>\<open>prepare_data\<close> with it, so that no id is put into either list.
\<close>

theorem split_by_rows_yields_no_partition:
  "map row_id (apply_SeqLenFilter
       (min_seq_len (train_conf (example_module ''iterable'' (Some ''data'') None ''rows'' 42)))
       (parquet_rows example_externals [''data''])) = [1, 2, 3, 4, 5]
   \<and> split_by_rows example_externals
       (example_module ''iterable'' (Some ''data'') None ''rows'' 42) [''data''] = Inl NameError
   \<and> prepare_data example_externals
       (example_module ''iterable'' (Some ''data'') None ''rows'' 42) = Inl NameError"
  by (simp add: prepare_data_def setup_iterable_files_def split_by_rows_NameError
      example_module_def example_externals_def apply_SeqLenFilter_def)

text \<open>
  C4. For five ids and the validation fraction 0.75 the nearest integer to
  \<open>f * N\<close> is 4, and the row-level split selects no validation ids at all: in map
  mode too, \<^verbatim>\<open>split_by_rows\<close> ends in \<^verbatim>\<open>NameError\<close> before line 189 is reached.
\<close>

theorem split_by_rows_selects_no_valid_ids:
  "length (apply_SeqLenFilter
       (min_seq_len (train_conf (example_module ''map'' (Some ''data'') None ''rows'' 42)))
       (parquet_rows example_externals [''data''])) = 5
   \<and> valid_size (setup_conf (example_module ''map'' (Some ''data'') None ''rows'' 42)) = 3 / 4
   \<and> round (of_nat 5 * (3 / 4 :: rat)) = 4
   \<and> split_by_rows example_externals
       (example_module ''map'' (Some ''data'') None ''rows'' 42) [''data''] = Inl NameError"
proof -
  have "round (of_nat 5 * (3 / 4 :: rat)) = 4"
    by code_simp
  then show ?thesis
    by (simp add: split_by_rows_NameError example_module_def example_externals_def
        apply_SeqLenFilter_def)
qed



text \<open>
  C6. The configured \<^verbatim>\<open>valid_split_seed\<close> takes no part in the row-level split: with
  the seeds 1 and 2 the method raises the same \<^verbatim>\<open>NameError\<close>, and with the missing
  name bound it returns the same train and valid ids for both seeds.
\<close>

theorem split_by_rows_ignores_valid_split_seed:
  "split_by_rows example_externals
     (example_module ''iterable'' (Some ''data'') None ''rows'' 1) [''data''] = Inl NameError
   \<and> split_by_rows example_externals
     (example_module ''iterable'' (Some ''data'') None ''rows'' 2) [''data''] = Inl NameError
   \<and> map_sum id (\<lambda>m. (train_ids m, valid_ids m))
       (split_by_rows_with (''shuffle_client_list_reproducible'' # nsp_module_globals)
          example_externals (example_module ''iterable'' (Some ''data'') None ''rows'' 1) [''data''])
     = Inr (Some [3, 4], Some [1, 2, 5])
   \<and> map_sum id (\<lambda>m. (train_ids m, valid_ids m))
       (split_by_rows_with (''shuffle_client_list_reproducible'' # nsp_module_globals)
          example_externals (example_module ''iterable'' (Some ''data'') None ''rows'' 2) [''data''])
     = Inr (Some [3, 4], Some [1, 2, 5])"
proof -
  have "split_by_rows_with (''shuffle_client_list_reproducible'' # nsp_module_globals)
          example_externals (example_module ''iterable'' (Some ''data'') None ''rows'' s) [''data'']
        = Inr ((example_module ''iterable'' (Some ''data'') None ''rows'' s)
                 \<lparr>train_ids := Some [3, 4], valid_ids := Some [1, 2, 5]\<rparr>)" for s
    using split_ids_example
    by (simp add: split_by_rows_with_def example_module_def example_externals_def
        apply_SeqLenFilter_def)
  then show ?thesis by (simp add: split_by_rows_NameError)
qed

section \<open>Configuration errors, augmentations and loaders\<close>

text \<open>
  C7. \<^verbatim>\<open>prepare_data\<close> raises, and returns no prepared module, when neither
  \<^verbatim>\<open>dataset_files\<close> nor \<^verbatim>\<open>dataset_parts\<close> is configured (\<^verbatim>\<open>AttributeError\<close>), when
  \<^verbatim>\<open>split_by\<close> is none of the recognized values (\<^verbatim>\<open>AttributeError\<close>), and when
  \<^verbatim>\<open>split_by = 'rows'\<close> is asked of a partitioned source (\<^verbatim>\<open>NotImplementedError\<close>).
\<close>

theorem prepare_data_config_errors:
  "(dataset_files (setup_conf self) = None \<and> dataset_parts (setup_conf self) = None
      \<longrightarrow> prepare_data ext self = Inl AttributeError)
   \<and> (split_by (setup_conf self) \<noteq> ''files'' \<and> split_by (setup_conf self) \<noteq> ''rows''
        \<and> split_by (setup_conf self) \<noteq> ''hash_id''
      \<longrightarrow> prepare_data ext self = Inl AttributeError)
   \<and> (dataset_files (setup_conf self) = None \<and> dataset_parts (setup_conf self) \<noteq> None
        \<and> split_by (setup_conf self) = ''rows''
      \<longrightarrow> prepare_data ext self = Inl NotImplementedError)"
  by (simp add: prepare_data_def setup_iterable_files_def setup_iterable_parts_def Let_def)

theorem prepare_data_config_errors_witness:
  "prepare_data example_externals (example_module ''map'' None None ''files'' 1)
     = Inl AttributeError
   \<and> prepare_data example_externals (example_module ''map'' (Some ''data'') None ''by_month'' 1)
     = Inl AttributeError
   \<and> prepare_data example_externals (example_module ''map'' None (Some ''parts'') ''by_month'' 1)
     = Inl AttributeError
   \<and> prepare_data example_externals (example_module ''map'' None (Some ''parts'') ''rows'' 1)
     = Inl NotImplementedError"
  using prepare_data_config_errors
          [of "example_module ''map'' None None ''files'' 1" example_externals]
        prepare_data_config_errors
          [of "example_module ''map'' (Some ''data'') None ''by_month'' 1" example_externals]
        prepare_data_config_errors
          [of "example_module ''map'' None (Some ''parts'') ''by_month'' 1" example_externals]
        prepare_data_config_errors
          [of "example_module ''map'' None (Some ''parts'') ''rows'' 1" example_externals]
  by (simp add: example_module_def)

text \<open>
  C8. The augmentation chain built for the part \<^verbatim>\<open>'train'\<close> is \<^verbatim>\<open>DropoutTrx\<close> followed
  by \<^verbatim>\<open>sequence_pair_augmentation\<close>; the chain built for \<^verbatim>\<open>'valid'\<close> is
  \<^verbatim>\<open>sequence_pair_augmentation\<close> alone, with no \<^verbatim>\<open>DropoutTrx\<close> stage.
\<close>

theorem build_augmentations_dropout:
  "build_augmentations self ''train''
     = [DropoutTrx (trx_dropout (train_conf self)), sequence_pair_augmentation]
   \<and> build_augmentations self ''valid'' = [sequence_pair_augmentation]"
  by (simp add: build_augmentations_def)

text \<open>
  C9. In map mode the train loader is built with shuffling on; the validation
  loader is built without shuffling whatever the mode.
\<close>

theorem dataloader_shuffle:
  "(mod_type self = ''map'' \<longrightarrow> dl_shuffle (train_dataloader self))
   \<and> \<not> dl_shuffle (val_dataloader self)"
  by (simp add: train_dataloader_def val_dataloader_def DataLoader_def)

theorem dataloader_shuffle_witness:
  "mod_type (example_module ''map'' (Some ''data'') None ''files'' 1) = ''map''
   \<and> dl_shuffle (train_dataloader (example_module ''map'' (Some ''data'') None ''files'' 1))
   \<and> \<not> dl_shuffle (val_dataloader (example_module ''map'' (Some ''data'') None ''files'' 1))"
  using dataloader_shuffle [of "example_module ''map'' (Some ''data'') None ''files'' 1"]
  by (simp add: example_module_def)

text \<open>
  C10. Constructing \<^verbatim>\<open>CoLESModule\<close> with \<^verbatim>\<open>loss=None\<close> raises \<^verbatim>\<open>NameError\<close>, whatever
  the other arguments and the base class do: \<^verbatim>\<open>HardNegativePairSelector\<close> is not among
  the names the module binds.
\<close>

theorem CoLESModule_default_loss_NameError:
  "CoLESModule_init ABSModule_init validation_metric seq_encoder hd_arg None
     optimizer_partial lr_scheduler_partial = Inl NameError"
  by (simp add: CoLESModule_init_def coles_module_globals_def)

end
